theory Spec2Isabelle
  imports Complex_Main "HOL-Library.Sublist" "HOL-Library.AList"
begin

section \<open>Errors\<close>

text \<open>
  Every exception the modelled code can raise is a value of this type; a fallible function
  returns \<open>error + 'a\<close> with \<open>Inl\<close> for the exception.  \<open>InferenceError\<close> stands for whatever
  a model's \<open>predict\<close> or \<open>predict_proba\<close> raises (a shape mismatch, say), \<open>NanCast\<close> for
  the one place where NumPy does not raise but yields the cast of NaN to an integer, which is
  no prediction vector at all.
\<close>

datatype error =
    InferenceError string
  | IndexError
  | ValueError
  | NanCast
  | KeyError string
  | FileNotFoundError string
  | OSError string
  | JSONDecodeError
  | ZeroDivisionError

section \<open>Ensemble strategies of \<open>ThreatDetectionTester\<close> (test-threat-detection.py)\<close>

text \<open>
  A batch \<open>X_test\<close> is a list of samples.  A loaded model is an object with a \<open>predict\<close>
  method and, for some estimators, a \<open>predict_proba\<close> method (\<open>hasattr\<close> is \<open>\<noteq> None\<close>).
  Both may raise.  Labels are integers, scores are exact reals standing for float64 values.
  \<open>self.models\<close> is a dict in insertion order: an association list with distinct keys.
\<close>

type_synonym sample = "real list"

text \<open>
  The result of \<open>predict_proba\<close> is a 2-D array of shape \<open>(length (rows P), ncols P)\<close>:
  every row has \<open>ncols P\<close> entries.
\<close>

datatype proba = Proba (ncols: nat) (rows: "real list list")

record model =
  predict :: "sample list \<Rightarrow> error + int list"
  predict_proba :: "(sample list \<Rightarrow> error + proba) option"

type_synonym models = "(string \<times> model) list"

type_synonym prediction = "int list \<times> real list option"

text \<open>\<open>P[:, j]\<close>: IndexError when the array has no column \<open>j\<close>.\<close>

definition column :: "nat \<Rightarrow> proba \<Rightarrow> error + real list" where
  "column j P = (if j < ncols P then Inr (map (\<lambda>r. r ! j) (rows P)) else Inl IndexError)"

text \<open>\<open>P.flatten()\<close>\<close>

definition flatten :: "proba \<Rightarrow> real list" where
  "flatten P = concat (rows P)"

text \<open>\<open>(y_pred_raw == -1).astype(int)\<close> and \<open>.astype(float)\<close>\<close>

definition is_anomaly :: "int list \<Rightarrow> int list" where
  "is_anomaly y_pred_raw = map (\<lambda>v. if v = - 1 then 1 else 0) y_pred_raw"

definition is_anomaly_float :: "int list \<Rightarrow> real list" where
  "is_anomaly_float y_pred_raw = map (\<lambda>v. if v = - 1 then 1 else 0) y_pred_raw"

text \<open>
  \<open>np.array(rows)\<close> of equally long 1-D arrays is a 2-D array; rows of different lengths
  raise ValueError (NumPy 1.24 and later).
\<close>

definition ragged :: "'a list list \<Rightarrow> bool" where
  "ragged rs = (\<exists>r \<in> set rs. length r \<noteq> length (hd rs))"

text \<open>Column sums of a non-empty rectangular array: \<open>np.sum(rows, axis=0)\<close>.\<close>

definition sum_axis0 :: "real list list \<Rightarrow> real list" where
  "sum_axis0 rs = map (\<lambda>j. \<Sum>r\<leftarrow>rs. r ! j) [0..<length (hd rs)]"

text \<open>\<open>np.round(x).astype(int)\<close>: NumPy rounds a value halfway between two integers to the even one.\<close>

definition np_round :: "real \<Rightarrow> int" where
  "np_round x =
     (let f = \<lfloor>x\<rfloor>; d = x - of_int f
      in if d < 1 / 2 then f else if 1 / 2 < d then f + 1 else if even f then f else f + 1)"

subsection \<open>majority_vote_ensemble\<close>

text \<open>The body of the loop over \<open>self.models.items()\<close>: one model's vote.\<close>

definition vote_of :: "string \<Rightarrow> model \<Rightarrow> sample list \<Rightarrow> error + int list" where
  "vote_of model_name m X_test =
     (if model_name = ''anomaly_detector''
      then (case predict m X_test of Inl e \<Rightarrow> Inl e | Inr y_pred_raw \<Rightarrow> Inr (is_anomaly y_pred_raw))
      else predict m X_test)"

text \<open>The loop itself: the first exception leaves the function.\<close>

fun collect_votes :: "models \<Rightarrow> sample list \<Rightarrow> int list list \<Rightarrow> error + int list list" where
  "collect_votes [] X_test predictions = Inr predictions"
| "collect_votes ((model_name, m) # rest) X_test predictions =
     (case vote_of model_name m X_test of
        Inl e \<Rightarrow> Inl e
      | Inr y_pred \<Rightarrow> collect_votes rest X_test (predictions @ [y_pred]))"

text \<open>
  With no model at all the mean over axis 0 of an empty array is NaN and the function returns
  its cast to an integer instead of a vector (\<open>NanCast\<close>).
\<close>

definition majority_vote_ensemble :: "models \<Rightarrow> sample list \<Rightarrow> error + prediction" where
  "majority_vote_ensemble ms X_test =
     (case collect_votes ms X_test [] of
        Inl e \<Rightarrow> Inl e
      | Inr predictions \<Rightarrow>
          if predictions = [] then Inl NanCast
          else if ragged predictions then Inl ValueError
          else Inr (map (\<lambda>s. np_round (s / real (length predictions)))
                      (sum_axis0 (map (map real_of_int) predictions)), None))"

subsection \<open>weighted_average_ensemble\<close>

definition weights :: "(string \<times> real) list" where
  "weights =
     [(''signature_detector'', 0.3),
      (''anomaly_detector'', 0.2),
      (''ensemble_rf'', 0.5),
      (''ensemble_lr'', 0.0),
      (''ensemble_svm'', 0.0)]"

text \<open>\<open>weights.get(model_name, 0.1)\<close>\<close>

definition weight_of :: "string \<Rightarrow> real" where
  "weight_of model_name = (case map_of weights model_name of Some w \<Rightarrow> w | None \<Rightarrow> 0.1)"

text \<open>The if/elif/else of the loop body: one model's score vector \<open>y_prob\<close>.\<close>

definition model_prob :: "string \<Rightarrow> model \<Rightarrow> sample list \<Rightarrow> error + real list" where
  "model_prob model_name m X_test =
     (if predict_proba m \<noteq> None \<and> model_name \<noteq> ''anomaly_detector''
      then (case the (predict_proba m) X_test of
              Inl e \<Rightarrow> Inl e
            | Inr y_prob \<Rightarrow> if ncols y_prob > 1 then column 1 y_prob else Inr (flatten y_prob))
      else if model_name = ''anomaly_detector''
      then (case predict m X_test of Inl e \<Rightarrow> Inl e | Inr y_pred_raw \<Rightarrow> Inr (is_anomaly_float y_pred_raw))
      else (case predict m X_test of Inl e \<Rightarrow> Inl e | Inr y_pred \<Rightarrow> Inr (map real_of_int y_pred)))"

fun weighted_loop ::
  "models \<Rightarrow> sample list \<Rightarrow> real list list \<Rightarrow> real \<Rightarrow> error + real list list \<times> real" where
  "weighted_loop [] X_test weighted_probs total_weight = Inr (weighted_probs, total_weight)"
| "weighted_loop ((model_name, m) # rest) X_test weighted_probs total_weight =
     (if weight_of model_name = 0 then weighted_loop rest X_test weighted_probs total_weight
      else (case model_prob model_name m X_test of
              Inl e \<Rightarrow> Inl e
            | Inr y_prob \<Rightarrow>
                weighted_loop rest X_test
                  (weighted_probs @ [map (\<lambda>p. p * weight_of model_name) y_prob])
                  (total_weight + weight_of model_name)))"

definition weighted_average_ensemble :: "models \<Rightarrow> sample list \<Rightarrow> error + prediction" where
  "weighted_average_ensemble ms X_test =
     (case weighted_loop ms X_test [] 0 of
        Inl e \<Rightarrow> Inl e
      | Inr (weighted_probs, total_weight) \<Rightarrow>
          if weighted_probs \<noteq> [] then
            (if ragged weighted_probs then Inl ValueError
             else (let ensemble_prob = map (\<lambda>s. s / total_weight) (sum_axis0 weighted_probs)
                   in Inr (map (\<lambda>p. if p > 0.5 then 1 else 0) ensemble_prob, Some ensemble_prob)))
          else Inr (replicate (length X_test) 0, None))"

subsection \<open>best_model_ensemble\<close>

text \<open>\<open>self.models.get('ensemble_rf') or self.models.get('signature_detector')\<close>; a loaded model is truthy.\<close>

definition best_model :: "models \<Rightarrow> model option" where
  "best_model ms =
     (case map_of ms ''ensemble_rf'' of
        Some m \<Rightarrow> Some m
      | None \<Rightarrow> map_of ms ''signature_detector'')"

definition best_model_ensemble :: "models \<Rightarrow> sample list \<Rightarrow> error + prediction" where
  "best_model_ensemble ms X_test =
     (case best_model ms of
        Some m \<Rightarrow>
          (case predict m X_test of
             Inl e \<Rightarrow> Inl e
           | Inr y_pred \<Rightarrow>
               (case predict_proba m of
                  None \<Rightarrow> Inr (y_pred, None)
                | Some pp \<Rightarrow>
                    (case pp X_test of
                       Inl e \<Rightarrow> Inl e
                     | Inr P \<Rightarrow>
                         (case column 1 P of
                            Inl e \<Rightarrow> Inl e
                          | Inr y_prob \<Rightarrow> Inr (y_pred, Some y_prob)))))
      | None \<Rightarrow> Inr (replicate (length X_test) 0, None))"

subsection \<open>test_ensemble_performance\<close>

text \<open>
  Each strategy runs inside its own \<open>try\<close>; \<open>except Exception\<close> records the strategy as an
  error.  The metric computations between the call and the record (accuracy, sklearn's
  report, confusion matrix, ROC AUC, timing) are the parameter \<open>metrics\<close>; they can raise
  too and are caught by the same handler.
\<close>

datatype 'r strategy_result = Success 'r | Error error

definition run_strategy ::
  "(sample list \<Rightarrow> error + prediction) \<Rightarrow> (prediction \<Rightarrow> error + 'r) \<Rightarrow> sample list \<Rightarrow> 'r strategy_result" where
  "run_strategy strategy_func metrics X_test =
     (case strategy_func X_test of
        Inl e \<Rightarrow> Error e
      | Inr p \<Rightarrow> (case metrics p of Inl e \<Rightarrow> Error e | Inr r \<Rightarrow> Success r))"

definition test_ensemble_performance ::
  "models \<Rightarrow> (prediction \<Rightarrow> error + 'r) \<Rightarrow> sample list \<Rightarrow> (string \<times> 'r strategy_result) list" where
  "test_ensemble_performance ms metrics X_test =
     [(''majority_vote'', run_strategy (majority_vote_ensemble ms) metrics X_test),
      (''weighted_average'', run_strategy (weighted_average_ensemble ms) metrics X_test),
      (''best_model'', run_strategy (best_model_ensemble ms) metrics X_test)]"

section \<open>Model deployment: \<open>ModelDeployer\<close> and \<open>main\<close> (deploy-models.py)\<close>

subsection \<open>Strings, paths, the clock and HTTP\<close>

text \<open>\<open>str(n)\<close> of an integer, for the f-strings that print one.\<close>

fun digits :: "nat \<Rightarrow> string" where
  "digits n = (if n < 10 then [char_of (48 + n)] else digits (n div 10) @ [char_of (48 + n mod 10)])"

declare digits.simps [simp del]

definition str_int :: "int \<Rightarrow> string" where
  "str_int i = (if i < 0 then CHR ''-'' # digits (nat (- i)) else digits (nat i))"

text \<open>
  \<open>Path(d) / n\<close> for a plain relative name \<open>n\<close>.  A path is the string \<open>str(path)\<close>.
\<close>

definition pjoin :: "string \<Rightarrow> string \<Rightarrow> string" where
  "pjoin d n = d @ ''/'' @ n"

text \<open>\<open>datetime.now().isoformat()\<close> and \<open>int(time.time())\<close> as read during the call.\<close>

record clock =
  now_iso :: string
  now_unix :: int

text \<open>
  What a call of \<open>requests.post\<close> or \<open>requests.get\<close> does: it returns a response with a
  status code and a body, or raises a \<open>RequestException\<close> (connection error, timeout).
  The body is \<open>None\<close> when it is no JSON: \<open>response.json()\<close> then raises requests'
  \<open>JSONDecodeError\<close>, which is a \<open>RequestException\<close> (requests 2.27 and later).
\<close>

datatype 'b http_outcome = Response nat "'b option" | RequestException string

subsection \<open>Data model\<close>

type_synonym metrics = "(string \<times> real) list"

text \<open>
  The dicts of the source become records.  A dict that arrives as JSON from outside
  (\<open>registry_info\<close>, its model entries, the experiment metadata) has an option field for
  every key the code reads: \<open>None\<close> is an absent key, so \<open>d[k]\<close> can raise KeyError and
  \<open>d.get(k, default)\<close> can take its default.
\<close>

record model_info =
  mi_name :: "string option"
  mi_version :: "string option"
  mi_type :: "string option"
  mi_framework :: "string option"
  mi_file_path :: "string option"
  mi_stage :: "string option"
  mi_performance_metrics :: "metrics option"
  mi_created_at :: "string option"
  mi_description :: "string option"

record preprocessors_info =
  pp_version :: string
  pp_file_path :: string
  pp_created_at :: string

record registry_info =
  ri_experiment_id :: "string option"
  ri_models :: "model_info list option"
  ri_timestamp :: "string option"
  ri_preprocessors :: "preprocessors_info option"

record metadata =
  meta_evaluation_results :: "(string \<times> metrics) list option"

record resource_requirements =
  rr_cpu :: string
  rr_memory :: string
  rr_gpu :: nat

record model_config =
  mc_name :: string
  mc_version :: string
  mc_file_path :: string
  mc_endpoint :: string
  mc_health_endpoint :: string
  mc_performance_metrics :: metrics
  mc_resource_requirements :: resource_requirements

record ensemble_config =
  ec_enabled :: bool
  ec_voting_strategy :: string
  ec_weights :: "(string \<times> real) list"

record auto_scaling =
  as_enabled :: bool
  as_min_replicas :: nat
  as_max_replicas :: nat
  as_target_cpu_percent :: nat
  as_target_memory_percent :: nat

record serving_block =
  sb_batch_size :: nat
  sb_timeout_ms :: nat
  sb_max_concurrent_requests :: nat
  sb_health_check_interval :: nat
  sb_auto_scaling :: auto_scaling

record alerting =
  al_accuracy_threshold :: real
  al_latency_threshold_ms :: nat
  al_error_rate_threshold :: real
  al_drift_threshold :: real

record monitoring =
  mo_enabled :: bool
  mo_metrics :: "string list"
  mo_alerting :: alerting

record rate_limiting =
  rl_requests_per_minute :: nat
  rl_burst_size :: nat

record security =
  se_authentication_required :: bool
  se_rate_limiting :: rate_limiting
  se_input_validation :: bool
  se_output_sanitization :: bool

record serving_config =
  sc_service_name :: string
  sc_version :: string
  sc_deployment_id :: string
  sc_models :: "model_config list"
  sc_ensemble_config :: ensemble_config
  sc_serving_config :: serving_block
  sc_monitoring :: monitoring
  sc_security :: security

record endpoint_info =
  ep_model :: string
  ep_endpoint :: string
  ep_health_endpoint :: string

record manual_deployment =
  md_instructions :: "string list"
  md_model_files :: "string list"
  md_config_file :: serving_config

text \<open>
  \<open>dr_api_response\<close> and \<open>dr_manual_deployment\<close> are keys that only one of the two branches
  sets.  The body of the deploy response is kept as its JSON text.
\<close>

record deployment_result =
  dr_deployment_id :: string
  dr_status :: string
  dr_timestamp :: string
  dr_endpoints :: "endpoint_info list"
  dr_health_checks :: "string list"
  dr_api_response :: "string option"
  dr_manual_deployment :: "manual_deployment option"

record test_entry =
  te_test :: string
  te_status :: string
  te_details :: string

record test_summary =
  ts_total_tests :: nat
  ts_passed :: nat
  ts_failed :: nat
  ts_success_rate :: real

record test_results =
  tr_timestamp :: string
  tr_tests :: "test_entry list"
  tr_summary :: test_summary

text \<open>What \<open>main\<close> hands to \<open>save_deployment_summary\<close>: the results, or the skipped marker with its timestamp.\<close>

datatype test_report = Ran test_results | Skipped string

record deployment_summary =
  ds_experiment_id :: string
  ds_deployment_timestamp :: string
  ds_deployment_result :: deployment_result
  ds_test_results :: test_report
  ds_status :: string
  ds_next_steps :: "string list"

subsection \<open>The file system\<close>

text \<open>
  A file system maps the path of each existing directory to its entries, name by name.
  \<open>Pickle\<close> is a file \<open>joblib.load\<close> can read: the loaded object has a length, or \<open>len\<close>
  raises with the given message.  \<open>Unreadable\<close> is a file neither \<open>joblib.load\<close> nor
  \<open>json.load\<close> can read, with the message of the exception.  Opening for writing fails in
  a directory that does not exist or is listed as read-only.
\<close>

datatype loaded = Sized nat | Unsized string

datatype content =
    Directory
  | Pickle loaded
  | Unreadable string
  | MetadataJson metadata
  | RegistryJson registry_info
  | SummaryJson deployment_summary

record filesystem =
  dirs :: "(string \<times> (string \<times> content) list) list"
  read_only :: "string list"

definition listdir :: "filesystem \<Rightarrow> string \<Rightarrow> (string \<times> content) list" where
  "listdir fs d = (case map_of (dirs fs) d of None \<Rightarrow> [] | Some es \<Rightarrow> es)"

text \<open>\<open>(Path(d) / n).exists()\<close>\<close>

definition path_exists :: "filesystem \<Rightarrow> string \<Rightarrow> string \<Rightarrow> bool" where
  "path_exists fs d n = (map_of (listdir fs d) n \<noteq> None)"

text \<open>\<open>Path(d).glob("*_v2.0.0.joblib")\<close>, as the names found.\<close>

definition glob_v2 :: "filesystem \<Rightarrow> string \<Rightarrow> string list" where
  "glob_v2 fs d = filter (suffix ''_v2.0.0.joblib'') (map fst (listdir fs d))"

text \<open>\<open>with open(Path(d) / n, 'w') as f: json.dump(doc, f, ...)\<close>\<close>

definition write_file :: "filesystem \<Rightarrow> string \<Rightarrow> string \<Rightarrow> content \<Rightarrow> error + filesystem" where
  "write_file fs d n c =
     (case map_of (dirs fs) d of
        None \<Rightarrow> Inl (FileNotFoundError (pjoin d n))
      | Some es \<Rightarrow>
          if d \<in> set (read_only fs) \<or> map_of es n = Some Directory then Inl (OSError (pjoin d n))
          else Inr (fs\<lparr>dirs := AList.update d (AList.update n c es) (dirs fs)\<rparr>))"

text \<open>\<open>joblib.load(Path(d) / n)\<close> of an existing path: the object, or the exception's message.\<close>

definition joblib_load :: "content \<Rightarrow> string + loaded" where
  "joblib_load c =
     (case c of
        Pickle obj \<Rightarrow> Inr obj
      | Unreadable msg \<Rightarrow> Inl msg
      | Directory \<Rightarrow> Inl ''Is a directory''
      | _ \<Rightarrow> Inl ''invalid load key'')"

record deployer =
  models_dir :: string
  experiments_dir :: string
  mlops_base_url :: string

subsection \<open>load_experiment_metadata\<close>

definition load_experiment_metadata :: "deployer \<Rightarrow> filesystem \<Rightarrow> string \<Rightarrow> error + metadata" where
  "load_experiment_metadata self fs experiment_id =
     (let experiment_dir = pjoin (experiments_dir self) experiment_id
      in case map_of (listdir fs experiment_dir) ''metadata.json'' of
           None \<Rightarrow> Inl (FileNotFoundError (pjoin experiment_dir ''metadata.json''))
         | Some (MetadataJson md) \<Rightarrow> Inr md
         | Some Directory \<Rightarrow> Inl (OSError (pjoin experiment_dir ''metadata.json''))
         | Some _ \<Rightarrow> Inl JSONDecodeError)"

subsection \<open>validate_models\<close>

definition required_files :: "string list" where
  "required_files = [''models.joblib'', ''preprocessors.joblib'', ''metadata.json'', ''deployment_config.json'']"

text \<open>
  \<open>validation_results\<close> is a dict in insertion order: \<open>d[k] = v\<close> overwrites the entry of an
  existing key and appends a new one, which is \<open>AList.update\<close>.
\<close>

definition validate_models :: "deployer \<Rightarrow> filesystem \<Rightarrow> string \<Rightarrow> (string \<times> bool) list" where
  "validate_models self fs experiment_id =
     (let experiment_dir = pjoin (experiments_dir self) experiment_id;
          validation_results =
            fold (\<lambda>file_name res. AList.update file_name (path_exists fs experiment_dir file_name) res)
              required_files [];
          validation_results =
            fold (\<lambda>model_file res. AList.update model_file True res)
              (glob_v2 fs (models_dir self)) validation_results
      in validation_results)"

text \<open>\<open>all(validation_results.values())\<close>\<close>

definition all_values :: "(string \<times> bool) list \<Rightarrow> bool" where
  "all_values d = list_all snd d"


subsection \<open>register_models_with_registry\<close>

definition model_names :: "string list" where
  "model_names =
     [''signature_detector'', ''anomaly_detector'', ''ensemble_rf'', ''ensemble_lr'', ''ensemble_svm'']"

text \<open>\<open>f"{model_name}_v2.0.0.joblib"\<close>\<close>

definition model_file_name :: "string \<Rightarrow> string" where
  "model_file_name model_name = model_name @ ''_v2.0.0.joblib''"

definition registry_model_info :: "deployer \<Rightarrow> clock \<Rightarrow> (string \<times> metrics) list \<Rightarrow> string \<Rightarrow> model_info" where
  "registry_model_info self clk evaluation_results model_name =
     \<lparr>mi_name = Some model_name,
      mi_version = Some ''2.0.0'',
      mi_type = Some ''threat_detection'',
      mi_framework = Some ''scikit-learn'',
      mi_file_path = Some (pjoin (models_dir self) (model_file_name model_name)),
      mi_stage = Some ''staging'',
      mi_performance_metrics =
        Some (case map_of evaluation_results model_name of Some pm \<Rightarrow> pm | None \<Rightarrow> []),
      mi_created_at = Some (now_iso clk),
      mi_description = Some (''Advanced threat detection model: '' @ model_name)\<rparr>"

text \<open>The loop over \<open>model_names\<close>: a model whose file exists is appended to \<open>registry_payload["models"]\<close>.\<close>

fun register_each ::
  "deployer \<Rightarrow> clock \<Rightarrow> filesystem \<Rightarrow> (string \<times> metrics) list \<Rightarrow> string list \<Rightarrow> model_info list \<Rightarrow> model_info list" where
  "register_each self clk fs evaluation_results [] ms = ms"
| "register_each self clk fs evaluation_results (model_name # rest) ms =
     (if path_exists fs (models_dir self) (model_file_name model_name)
      then register_each self clk fs evaluation_results rest
             (ms @ [registry_model_info self clk evaluation_results model_name])
      else register_each self clk fs evaluation_results rest ms)"

definition registry_payload :: "deployer \<Rightarrow> clock \<Rightarrow> filesystem \<Rightarrow> string \<Rightarrow> metadata \<Rightarrow> registry_info" where
  "registry_payload self clk fs experiment_id md =
     (let evaluation_results = (case meta_evaluation_results md of Some er \<Rightarrow> er | None \<Rightarrow> [])
      in \<lparr>ri_experiment_id = Some experiment_id,
          ri_models = Some (register_each self clk fs evaluation_results model_names []),
          ri_timestamp = Some (now_iso clk),
          ri_preprocessors =
            (if path_exists fs (models_dir self) ''preprocessors_v2.0.0.joblib''
             then Some \<lparr>pp_version = ''2.0.0'',
                        pp_file_path = pjoin (models_dir self) ''preprocessors_v2.0.0.joblib'',
                        pp_created_at = now_iso clk\<rparr>
             else None)\<rparr>)"

text \<open>The fallback after the \<open>try\<close>: the payload is written to the experiment directory and returned.\<close>

definition register_locally ::
  "deployer \<Rightarrow> filesystem \<Rightarrow> string \<Rightarrow> registry_info \<Rightarrow> error + registry_info \<times> filesystem" where
  "register_locally self fs experiment_id payload =
     (case write_file fs (pjoin (experiments_dir self) experiment_id) ''model_registry_deployment.json''
             (RegistryJson payload) of
        Inl e \<Rightarrow> Inl e
      | Inr fs' \<Rightarrow> Inr (payload, fs'))"

text \<open>
  \<open>post url json\<close> is what \<open>requests.post(url, json=..., timeout=30)\<close> does.  The function
  returns the registry entry and the file system it leaves.
\<close>

definition register_models_with_registry ::
  "deployer \<Rightarrow> clock \<Rightarrow> filesystem \<Rightarrow> (string \<Rightarrow> registry_info \<Rightarrow> registry_info http_outcome) \<Rightarrow>
   string \<Rightarrow> metadata \<Rightarrow> error + registry_info \<times> filesystem" where
  "register_models_with_registry self clk fs post experiment_id md =
     (let payload = registry_payload self clk fs experiment_id md
      in case post (mlops_base_url self @ ''/api/mlops/models'') payload of
           Response status_code body \<Rightarrow>
             if status_code = 200
             then (case body of
                     Some j \<Rightarrow> Inr (j, fs)
                   | None \<Rightarrow> register_locally self fs experiment_id payload)
             else register_locally self fs experiment_id payload
         | RequestException msg \<Rightarrow> register_locally self fs experiment_id payload)"

subsection \<open>create_model_serving_config\<close>

text \<open>The dict literal of the loop body; its subscripts are evaluated in the order written.\<close>

definition model_config_of :: "model_info \<Rightarrow> error + model_config" where
  "model_config_of model_info =
     (case mi_name model_info of
        None \<Rightarrow> Inl (KeyError ''name'')
      | Some name \<Rightarrow>
          (case mi_version model_info of
             None \<Rightarrow> Inl (KeyError ''version'')
           | Some version \<Rightarrow>
               (case mi_file_path model_info of
                  None \<Rightarrow> Inl (KeyError ''file_path'')
                | Some file_path \<Rightarrow>
                    Inr \<lparr>mc_name = name,
                         mc_version = version,
                         mc_file_path = file_path,
                         mc_endpoint = ''/predict/'' @ name,
                         mc_health_endpoint = ''/health/'' @ name,
                         mc_performance_metrics =
                           (case mi_performance_metrics model_info of Some pm \<Rightarrow> pm | None \<Rightarrow> []),
                         mc_resource_requirements =
                           \<lparr>rr_cpu = ''500m'', rr_memory = ''1Gi'', rr_gpu = 0\<rparr>\<rparr>)))"

fun configure_models :: "model_info list \<Rightarrow> model_config list \<Rightarrow> error + model_config list" where
  "configure_models [] ms = Inr ms"
| "configure_models (model_info # rest) ms =
     (case model_config_of model_info of
        Inl e \<Rightarrow> Inl e
      | Inr model_config \<Rightarrow> configure_models rest (ms @ [model_config]))"

text \<open>\<open>registry_info.get("models", [])\<close>\<close>

definition registry_models :: "registry_info \<Rightarrow> model_info list" where
  "registry_models registry_info = (case ri_models registry_info of Some ms \<Rightarrow> ms | None \<Rightarrow> [])"

definition create_model_serving_config ::
  "clock \<Rightarrow> string \<Rightarrow> registry_info \<Rightarrow> error + serving_config" where
  "create_model_serving_config clk experiment_id registry_info =
     (case configure_models (registry_models registry_info) [] of
        Inl e \<Rightarrow> Inl e
      | Inr ms \<Rightarrow>
          Inr \<lparr>sc_service_name = ''threat-detection-models'',
               sc_version = ''2.0.0'',
               sc_deployment_id = ''deploy-'' @ experiment_id @ ''-'' @ str_int (now_unix clk),
               sc_models = ms,
               sc_ensemble_config =
                 \<lparr>ec_enabled = True,
                  ec_voting_strategy = ''weighted_average'',
                  ec_weights =
                    [(''signature_detector'', 0.3), (''anomaly_detector'', 0.2), (''ensemble_rf'', 0.5)]\<rparr>,
               sc_serving_config =
                 \<lparr>sb_batch_size = 32,
                  sb_timeout_ms = 5000,
                  sb_max_concurrent_requests = 100,
                  sb_health_check_interval = 30,
                  sb_auto_scaling =
                    \<lparr>as_enabled = True,
                     as_min_replicas = 1,
                     as_max_replicas = 5,
                     as_target_cpu_percent = 70,
                     as_target_memory_percent = 80\<rparr>\<rparr>,
               sc_monitoring =
                 \<lparr>mo_enabled = True,
                  mo_metrics =
                    [''prediction_latency'', ''prediction_accuracy'', ''model_drift'', ''data_drift'',
                     ''resource_usage''],
                  mo_alerting =
                    \<lparr>al_accuracy_threshold = 0.8,
                     al_latency_threshold_ms = 1000,
                     al_error_rate_threshold = 0.05,
                     al_drift_threshold = 0.1\<rparr>\<rparr>,
               sc_security =
                 \<lparr>se_authentication_required = True,
                  se_rate_limiting = \<lparr>rl_requests_per_minute = 1000, rl_burst_size = 100\<rparr>,
                  se_input_validation = True,
                  se_output_sanitization = True\<rparr>\<rparr>)"

subsection \<open>deploy_to_serving_infrastructure\<close>

record deploy_request =
  rq_deployment_config :: serving_config
  rq_models :: "model_config list"

text \<open>The loop that appends one \<open>endpoint_info\<close> per model; both branches run the same loop.\<close>

definition endpoint_infos :: "deployer \<Rightarrow> serving_config \<Rightarrow> endpoint_info list" where
  "endpoint_infos self serving_config =
     map (\<lambda>model.
            \<lparr>ep_model = mc_name model,
             ep_endpoint = mlops_base_url self @ mc_endpoint model,
             ep_health_endpoint = mlops_base_url self @ mc_health_endpoint model\<rparr>)
       (sc_models serving_config)"

definition manual_instructions :: "string list" where
  "manual_instructions =
     [''1. Copy model files to serving infrastructure'',
      ''2. Load models using the provided configuration'',
      ''3. Start serving endpoints'',
      ''4. Configure monitoring and alerting'',
      ''5. Run health checks'']"

text \<open>The code after the \<open>try\<close>, reached on a status other than 200 and from the \<open>except\<close>.\<close>

definition manual_fallback :: "deployer \<Rightarrow> serving_config \<Rightarrow> deployment_result \<Rightarrow> deployment_result" where
  "manual_fallback self serving_config deployment_result =
     deployment_result
       \<lparr>dr_status := ''configuration_ready'',
        dr_manual_deployment :=
          Some \<lparr>md_instructions = manual_instructions,
                md_model_files = map mc_file_path (sc_models serving_config),
                md_config_file = serving_config\<rparr>,
        dr_endpoints := dr_endpoints deployment_result @ endpoint_infos self serving_config\<rparr>"

definition deploy_to_serving_infrastructure ::
  "deployer \<Rightarrow> clock \<Rightarrow> (string \<Rightarrow> deploy_request \<Rightarrow> string http_outcome) \<Rightarrow> serving_config \<Rightarrow>
   deployment_result" where
  "deploy_to_serving_infrastructure self clk post serving_config =
     (let deployment_result =
            \<lparr>dr_deployment_id = sc_deployment_id serving_config,
             dr_status = ''pending'',
             dr_timestamp = now_iso clk,
             dr_endpoints = [],
             dr_health_checks = [],
             dr_api_response = None,
             dr_manual_deployment = None\<rparr>
      in case post (mlops_base_url self @ ''/api/mlops/deploy'')
                \<lparr>rq_deployment_config = serving_config, rq_models = sc_models serving_config\<rparr> of
           Response status_code body \<Rightarrow>
             if status_code = 200
             then (case body of
                     Some j \<Rightarrow>
                       deployment_result
                         \<lparr>dr_status := ''deployed'',
                          dr_api_response := Some j,
                          dr_endpoints := dr_endpoints deployment_result @ endpoint_infos self serving_config\<rparr>
                   | None \<Rightarrow>
                       manual_fallback self serving_config (deployment_result\<lparr>dr_status := ''deployed''\<rparr>))
             else manual_fallback self serving_config deployment_result
         | RequestException msg \<Rightarrow> manual_fallback self serving_config deployment_result)"


subsection \<open>run_deployment_tests\<close>

definition test_passed :: "string \<Rightarrow> string \<Rightarrow> test_entry" where
  "test_passed name details = \<lparr>te_test = name, te_status = ''passed'', te_details = details\<rparr>"

definition test_failed :: "string \<Rightarrow> string \<Rightarrow> test_entry" where
  "test_failed name details = \<lparr>te_test = name, te_status = ''failed'', te_details = details\<rparr>"

text \<open>
  The first \<open>try\<close>: the models file is looked up under the literal directory name
  \<open>initial-training-20250614\<close>; \<open>except Exception\<close> turns a failing \<open>joblib.load\<close> or
  \<open>len\<close> into a failed test.
\<close>

definition model_loading_test :: "deployer \<Rightarrow> filesystem \<Rightarrow> test_entry" where
  "model_loading_test self fs =
     (case map_of (listdir fs (pjoin (experiments_dir self) ''initial-training-20250614'')) ''models.joblib'' of
        Some c \<Rightarrow>
          (case joblib_load c of
             Inr (Sized n) \<Rightarrow>
               test_passed ''model_loading'' (''Successfully loaded '' @ digits n @ '' models'')
           | Inr (Unsized msg) \<Rightarrow> test_failed ''model_loading'' (''Error loading models: '' @ msg)
           | Inl msg \<Rightarrow> test_failed ''model_loading'' (''Error loading models: '' @ msg))
      | None \<Rightarrow> test_failed ''model_loading'' ''Model file not found'')"

definition preprocessor_loading_test :: "deployer \<Rightarrow> filesystem \<Rightarrow> test_entry" where
  "preprocessor_loading_test self fs =
     (case map_of (listdir fs (models_dir self)) ''preprocessors_v2.0.0.joblib'' of
        Some c \<Rightarrow>
          (case joblib_load c of
             Inr preprocessors \<Rightarrow> test_passed ''preprocessor_loading'' ''Successfully loaded preprocessors''
           | Inl msg \<Rightarrow> test_failed ''preprocessor_loading'' (''Error loading preprocessors: '' @ msg))
      | None \<Rightarrow> test_failed ''preprocessor_loading'' ''Preprocessor file not found'')"

text \<open>The body of the loop over the endpoints; \<open>get url\<close> is \<open>requests.get(url, timeout=10)\<close>.\<close>

definition endpoint_health_test :: "(string \<Rightarrow> unit http_outcome) \<Rightarrow> endpoint_info \<Rightarrow> test_entry" where
  "endpoint_health_test get endpoint_info =
     (let health_url = ep_health_endpoint endpoint_info
      in case get health_url of
           Response status_code body \<Rightarrow>
             if status_code = 200
             then test_passed (''endpoint_health_'' @ ep_model endpoint_info) (''Endpoint responding: '' @ health_url)
             else test_failed (''endpoint_health_'' @ ep_model endpoint_info)
                    (''Endpoint not responding: '' @ health_url)
         | RequestException msg \<Rightarrow>
             test_failed (''endpoint_health_'' @ ep_model endpoint_info) (''Connection error: '' @ msg))"

text \<open>Python's \<open>a / b\<close> on integers raises ZeroDivisionError when \<open>b\<close> is 0.\<close>

definition py_truediv :: "nat \<Rightarrow> nat \<Rightarrow> error + real" where
  "py_truediv a b = (if b = 0 then Inl ZeroDivisionError else Inr (real a / real b))"

text \<open>
  The summary at the end of \<open>run_deployment_tests\<close>.  The conditional expression evaluates
  the division only when \<open>total_tests > 0\<close>.
\<close>

definition summarize :: "test_entry list \<Rightarrow> error + test_summary" where
  "summarize tests =
     (let passed_tests = length (filter (\<lambda>t. te_status t = ''passed'') tests);
          total_tests = length tests
      in case (if total_tests > 0 then py_truediv passed_tests total_tests else Inr 0) of
           Inl e \<Rightarrow> Inl e
         | Inr success_rate \<Rightarrow>
             Inr \<lparr>ts_total_tests = total_tests,
                  ts_passed = passed_tests,
                  ts_failed = total_tests - passed_tests,
                  ts_success_rate = success_rate\<rparr>)"

definition deployment_tests ::
  "deployer \<Rightarrow> filesystem \<Rightarrow> (string \<Rightarrow> unit http_outcome) \<Rightarrow> deployment_result \<Rightarrow> test_entry list" where
  "deployment_tests self fs get deployment_result =
     [model_loading_test self fs, preprocessor_loading_test self fs] @
     (if dr_status deployment_result = ''deployed''
      then map (endpoint_health_test get) (dr_endpoints deployment_result)
      else [])"

definition run_deployment_tests ::
  "deployer \<Rightarrow> clock \<Rightarrow> filesystem \<Rightarrow> (string \<Rightarrow> unit http_outcome) \<Rightarrow> deployment_result \<Rightarrow>
   error + test_results" where
  "run_deployment_tests self clk fs get deployment_result =
     (let tests = deployment_tests self fs get deployment_result
      in case summarize tests of
           Inl e \<Rightarrow> Inl e
         | Inr summary \<Rightarrow> Inr \<lparr>tr_timestamp = now_iso clk, tr_tests = tests, tr_summary = summary\<rparr>)"

subsection \<open>save_deployment_summary\<close>

definition save_deployment_summary ::
  "deployer \<Rightarrow> clock \<Rightarrow> filesystem \<Rightarrow> string \<Rightarrow> deployment_result \<Rightarrow> test_report \<Rightarrow>
   error + deployment_summary \<times> filesystem" where
  "save_deployment_summary self clk fs experiment_id deployment_result test_results =
     (let deployment_summary =
            \<lparr>ds_experiment_id = experiment_id,
             ds_deployment_timestamp = now_iso clk,
             ds_deployment_result = deployment_result,
             ds_test_results = test_results,
             ds_status =
               (if dr_status deployment_result = ''deployed'' then ''deployed'' else ''ready_for_deployment''),
             ds_next_steps =
               (if dr_status deployment_result = ''deployed''
                then [''Monitor model performance via MLOps dashboard'',
                      ''Set up automated retraining pipelines'',
                      ''Configure A/B testing for model improvements'',
                      ''Review and update monitoring thresholds'']
                else [''Set up MLOps serving infrastructure'',
                      ''Deploy models using provided configuration'',
                      ''Configure monitoring and alerting'',
                      ''Run deployment validation tests''])\<rparr>
      in case write_file fs (pjoin (experiments_dir self) experiment_id) ''deployment_summary.json''
                (SummaryJson deployment_summary) of
           Inl e \<Rightarrow> Inl e
         | Inr fs' \<Rightarrow> Inr (deployment_summary, fs'))"

subsection \<open>main\<close>

record args =
  arg_experiment_id :: string
  arg_models_dir :: string
  arg_experiments_dir :: string
  arg_mlops_url :: string
  arg_skip_tests :: bool

text \<open>The network as \<open>main\<close> meets it: the answer to each request the deployer sends.\<close>

record network =
  post_models :: "string \<Rightarrow> registry_info \<Rightarrow> registry_info http_outcome"
  post_deploy :: "string \<Rightarrow> deploy_request \<Rightarrow> string http_outcome"
  get_health :: "string \<Rightarrow> unit http_outcome"

text \<open>
  \<open>main\<close> returns its exit code.  The model also returns the file system the run leaves and
  the deployer methods it called, in order; the \<open>except Exception\<close> around the whole body
  turns every exception into exit code 1.  The printed report has no effect on either.
\<close>

definition main :: "args \<Rightarrow> clock \<Rightarrow> network \<Rightarrow> filesystem \<Rightarrow> int \<times> filesystem \<times> string list" where
  "main args clk net fs =
     (let deployer =
            \<lparr>models_dir = arg_models_dir args,
             experiments_dir = arg_experiments_dir args,
             mlops_base_url = arg_mlops_url args\<rparr>
      in case load_experiment_metadata deployer fs (arg_experiment_id args) of
           Inl e \<Rightarrow> (1, fs, [''load_experiment_metadata''])
         | Inr metadata \<Rightarrow>
             let validation_results = validate_models deployer fs (arg_experiment_id args)
             in if \<not> all_values validation_results
                then (1, fs, [''load_experiment_metadata'', ''validate_models''])
                else
                  (case register_models_with_registry deployer clk fs (post_models net)
                          (arg_experiment_id args) metadata of
                     Inl e \<Rightarrow>
                       (1, fs,
                        [''load_experiment_metadata'', ''validate_models'', ''register_models_with_registry''])
                   | Inr (registry_info, fs1) \<Rightarrow>
                       (case create_model_serving_config clk (arg_experiment_id args) registry_info of
                          Inl e \<Rightarrow>
                            (1, fs1,
                             [''load_experiment_metadata'', ''validate_models'',
                              ''register_models_with_registry'', ''create_model_serving_config''])
                        | Inr serving_config \<Rightarrow>
                            let deployment_result =
                                  deploy_to_serving_infrastructure deployer clk (post_deploy net) serving_config
                            in (case (if \<not> arg_skip_tests args
                                      then (case run_deployment_tests deployer clk fs1 (get_health net)
                                                   deployment_result of
                                              Inl e \<Rightarrow> Inl e
                                            | Inr tr \<Rightarrow> Inr (Ran tr))
                                      else Inr (Skipped (now_iso clk))) of
                                  Inl e \<Rightarrow>
                                    (1, fs1,
                                     [''load_experiment_metadata'', ''validate_models'',
                                      ''register_models_with_registry'', ''create_model_serving_config'',
                                      ''deploy_to_serving_infrastructure'', ''run_deployment_tests''])
                                | Inr test_results \<Rightarrow>
                                    (case save_deployment_summary deployer clk fs1 (arg_experiment_id args)
                                            deployment_result test_results of
                                       Inl e \<Rightarrow>
                                         (1, fs1,
                                          [''load_experiment_metadata'', ''validate_models'',
                                           ''register_models_with_registry'', ''create_model_serving_config'',
                                           ''deploy_to_serving_infrastructure''] @
                                          (if arg_skip_tests args then [] else [''run_deployment_tests'']) @
                                          [''save_deployment_summary''])
                                     | Inr (deployment_summary, fs2) \<Rightarrow>
                                         (0, fs2,
                                          [''load_experiment_metadata'', ''validate_models'',
                                           ''register_models_with_registry'', ''create_model_serving_config'',
                                           ''deploy_to_serving_infrastructure''] @
                                          (if arg_skip_tests args then [] else [''run_deployment_tests'']) @
                                          [''save_deployment_summary'']))))))"


section \<open>The specification's notions, and sample inputs\<close>

subsection \<open>Ensemble strategies\<close>

text \<open>The mean of the models' votes for sample \<open>i\<close>.\<close>

definition vote_mean :: "int list list \<Rightarrow> nat \<Rightarrow> real" where
  "vote_mean votes i = (\<Sum>v\<leftarrow>votes. real_of_int (v ! i)) / real (length votes)"



text \<open>
  Sample models: one that predicts the same label for every sample and has no
  \<open>predict_proba\<close>, one whose inference raises, and one with a two-column \<open>predict_proba\<close>.
\<close>

definition constant_model :: "int \<Rightarrow> model" where
  "constant_model v = \<lparr>predict = (\<lambda>X. Inr (replicate (length X) v)), predict_proba = None\<rparr>"

definition failing_model :: model where
  "failing_model = \<lparr>predict = (\<lambda>X. Inl (InferenceError ''shape mismatch'')), predict_proba = None\<rparr>"



definition one_failing :: models where
  "one_failing = [(''signature_detector'', failing_model), (''ensemble_rf'', constant_model 1)]"


subsection \<open>Deployment\<close>

text \<open>A deploy request fails: a status other than 200, or no response at all.\<close>

definition post_failed :: "'b http_outcome \<Rightarrow> bool" where
  "post_failed outcome = (case outcome of Response status_code body \<Rightarrow> status_code \<noteq> 200 | RequestException msg \<Rightarrow> True)"




text \<open>The deployer \<open>main\<close> builds from its arguments.\<close>

definition deployer_of :: "args \<Rightarrow> deployer" where
  "deployer_of args =
     \<lparr>models_dir = arg_models_dir args,
      experiments_dir = arg_experiments_dir args,
      mlops_base_url = arg_mlops_url args\<rparr>"

text \<open>
  Sample inputs: a deployer, a clock, command line arguments, a registry that does not
  answer and one that echoes the entry, and file systems: a complete experiment with the
  signature detector as its only model file, one with no model file at all, one whose
  experiment directory is read-only, one without \<open>deployment_config.json\<close>, and one that
  holds nothing but the directory \<open>initial-training-20250614\<close>.
\<close>

definition deployer0 :: deployer where
  "deployer0 = \<lparr>models_dir = ''models'', experiments_dir = ''experiments'', mlops_base_url = ''http://localhost:3007''\<rparr>"

definition deployer_other :: deployer where
  "deployer_other = \<lparr>models_dir = ''other-models'', experiments_dir = ''experiments'', mlops_base_url = ''http://mlops:3007''\<rparr>"

definition clock0 :: clock where
  "clock0 = \<lparr>now_iso = ''2025-06-14T12:00:00'', now_unix = 1749902400\<rparr>"

definition args0 :: args where
  "args0 =
     \<lparr>arg_experiment_id = ''exp1'',
      arg_models_dir = ''models'',
      arg_experiments_dir = ''experiments'',
      arg_mlops_url = ''http://localhost:3007'',
      arg_skip_tests = False\<rparr>"

definition unreachable :: "string \<Rightarrow> 'a \<Rightarrow> 'b http_outcome" where
  "unreachable url json = RequestException ''connection refused''"

definition no_answer :: "string \<Rightarrow> unit http_outcome" where
  "no_answer url = RequestException ''connection refused''"


definition network_down :: network where
  "network_down = \<lparr>post_models = unreachable, post_deploy = unreachable, get_health = no_answer\<rparr>"

definition metadata0 :: metadata where
  "metadata0 = \<lparr>meta_evaluation_results = Some [(''signature_detector'', [(''accuracy'', 0.9)])]\<rparr>"

definition experiment_files :: "(string \<times> content) list" where
  "experiment_files =
     [(''models.joblib'', Pickle (Sized 5)),
      (''preprocessors.joblib'', Pickle (Unsized ''no len'')),
      (''metadata.json'', MetadataJson metadata0),
      (''deployment_config.json'', Unreadable ''not a pickle'')]"

definition fs_complete :: filesystem where
  "fs_complete =
     \<lparr>dirs =
        [(''models'',
          [(''signature_detector_v2.0.0.joblib'', Pickle (Sized 100)),
           (''preprocessors_v2.0.0.joblib'', Pickle (Unsized ''no len''))]),
         (''experiments/exp1'', experiment_files),
         (''experiments/initial-training-20250614'', [(''models.joblib'', Pickle (Sized 5))])],
      read_only = []\<rparr>"



definition fs_missing_config :: filesystem where
  "fs_missing_config =
     \<lparr>dirs =
        [(''models'', [(''signature_detector_v2.0.0.joblib'', Pickle (Sized 100))]),
         (''experiments/exp1'',
          [(''models.joblib'', Pickle (Sized 5)),
           (''preprocessors.joblib'', Pickle (Unsized ''no len'')),
           (''metadata.json'', MetadataJson metadata0)])],
      read_only = []\<rparr>"

definition fs_only_initial :: filesystem where
  "fs_only_initial =
     \<lparr>dirs = [(''experiments/initial-training-20250614'', [(''models.joblib'', Pickle (Sized 5))])],
      read_only = []\<rparr>"

definition registry_sig_only :: registry_info where
  "registry_sig_only = registry_payload deployer0 clock0 fs_complete ''exp1'' metadata0"

definition config_sig_only :: serving_config where
  "config_sig_only = projr (create_model_serving_config clock0 ''exp1'' registry_sig_only)"

definition result_for :: "string \<Rightarrow> deployment_result" where
  "result_for experiment_id =
     \<lparr>dr_deployment_id = ''deploy-'' @ experiment_id @ ''-1749902400'',
      dr_status = ''configuration_ready'',
      dr_timestamp = ''2025-06-14T12:00:00'',
      dr_endpoints = [],
      dr_health_checks = [],
      dr_api_response = None,
      dr_manual_deployment = None\<rparr>"


section \<open>Properties of the ensemble strategies\<close>

subsection \<open>Auxiliary facts\<close>

lemma np_round_unit: "0 \<le> x \<Longrightarrow> x \<le> 1 \<Longrightarrow> np_round x = (if 1 / 2 < x then 1 else 0)"
proof -
  assume a: "0 \<le> x" "x \<le> 1"
  show ?thesis
  proof (cases "x = 1")
    case True
    then show ?thesis by (simp add: np_round_def)
  next
    case False
    with a have "\<lfloor>x\<rfloor> = 0" by (simp add: floor_eq_iff)
    then show ?thesis by (simp add: np_round_def)
  qed
qed

lemma collect_votes_Inr:
  "map (\<lambda>(n, m). vote_of n m X) ms = map Inr votes \<Longrightarrow> collect_votes ms X acc = Inr (acc @ votes)"
proof (induction ms arbitrary: acc votes)
  case Nil
  then show ?case by simp
next
  case (Cons p ms)
  obtain n m where p: "p = (n, m)" by (cases p)
  from Cons.prems p obtain v vs where vs: "votes = v # vs" "vote_of n m X = Inr v"
    "map (\<lambda>(n, m). vote_of n m X) ms = map Inr vs"
    by (cases votes) auto
  show ?case using Cons.IH [OF vs(3)] vs(1,2) p by simp
qed

lemma sum_axis0_nth:
  assumes "rs \<noteq> []" "\<forall>r\<in>set rs. length r = k"
  shows "sum_axis0 (map (map f) rs) = map (\<lambda>j. \<Sum>r\<leftarrow>rs. f (r ! j)) [0..<k]"
proof -
  from assms have hd: "length (hd (map (map f) rs)) = k" by (cases rs) auto
  have "\<And>j. j < k \<Longrightarrow> (\<Sum>r\<leftarrow>map (map f) rs. r ! j) = (\<Sum>r\<leftarrow>rs. f (r ! j))"
  proof -
    fix j assume "j < k"
    with assms(2) have "map (\<lambda>r. map f r ! j) rs = map (\<lambda>r. f (r ! j)) rs" by simp
    then have "sum_list (map (\<lambda>r. map f r ! j) rs) = sum_list (map (\<lambda>r. f (r ! j)) rs)" by (rule arg_cong)
    then show "(\<Sum>r\<leftarrow>map (map f) rs. r ! j) = (\<Sum>r\<leftarrow>rs. f (r ! j))" by (simp add: comp_def)
  qed
  then show ?thesis unfolding sum_axis0_def hd by simp
qed

lemma not_ragged: "\<forall>r\<in>set rs. length r = k \<Longrightarrow> \<not> ragged rs"
  by (cases rs) (auto simp: ragged_def)

lemma binary_sum_bounds:
  assumes "\<forall>v\<in>set votes. i < length v \<and> set v \<subseteq> {0, 1}"
  shows "0 \<le> (\<Sum>v\<leftarrow>votes. real_of_int (v ! i)) \<and> (\<Sum>v\<leftarrow>votes. real_of_int (v ! i)) \<le> real (length votes)"
  using assms
proof (induction votes)
  case Nil
  then show ?case by simp
next
  case (Cons v vs)
  then have "v ! i \<in> {0, 1}" by (metis list.set_intros(1) nth_mem subsetD)
  with Cons show ?case by auto
qed









lemma collect_votes_Inl:
  "(n, m) \<in> set ms \<Longrightarrow> vote_of n m X = Inl e \<Longrightarrow> \<exists>e'. collect_votes ms X acc = Inl e'"
proof (induction ms arbitrary: acc)
  case Nil
  then show ?case by simp
next
  case (Cons p ms)
  obtain n' m' where p: "p = (n', m')" by (cases p)
  show ?case
  proof (cases "vote_of n' m' X")
    case (Inl e')
    then show ?thesis by (simp add: p)
  next
    case (Inr v)
    with Cons.prems p have "(n, m) \<in> set ms" by auto
    from Cons.IH [OF this Cons.prems(2)] Inr p show ?thesis by simp
  qed
qed

lemma weighted_loop_Inl:
  "(n, m) \<in> set ms \<Longrightarrow> weight_of n \<noteq> 0 \<Longrightarrow> model_prob n m X = Inl e \<Longrightarrow>
   \<exists>e'. weighted_loop ms X wp tw = Inl e'"
proof (induction ms arbitrary: wp tw)
  case Nil
  then show ?case by simp
next
  case (Cons p ms)
  obtain n' m' where p: "p = (n', m')" by (cases p)
  show ?case
  proof (cases "weight_of n' \<noteq> 0 \<and> isl (model_prob n' m' X)")
    case True
    then show ?thesis by (auto simp: p isl_def)
  next
    case False
    with Cons.prems p have "(n, m) \<in> set ms" by auto
    from Cons.IH [OF this Cons.prems(2,3)] False p show ?thesis
      by (cases "model_prob n' m' X") auto
  qed
qed


subsection \<open>Majority vote\<close>

text \<open>
  Claim C2, as the code has it.  For a non-empty collection of models whose votes are binary
  vectors with one entry per sample, \<open>majority_vote_ensemble\<close> returns per sample the mean
  of the votes rounded to the nearest integer, a mean halfway between two integers going to
  the even one: the label is 1 exactly when the mean is above one half, and a mean of
  exactly one half gives label 0.
\<close>

theorem majority_vote_ensemble_half_to_even:
  assumes "ms \<noteq> []"
    and "map (\<lambda>(n, m). vote_of n m X) ms = map Inr votes"
    and "\<forall>v\<in>set votes. length v = length X \<and> set v \<subseteq> {0, 1}"
  shows "majority_vote_ensemble ms X =
           Inr (map (\<lambda>i. np_round (vote_mean votes i)) [0..<length X], None)
         \<and> (\<forall>i<length X. np_round (vote_mean votes i) = (if 1 / 2 < vote_mean votes i then 1 else 0))"
proof -
  from assms(2) have len: "length votes = length ms" by (metis length_map)
  with assms(1) have ne: "votes \<noteq> []" by auto
  have cv: "collect_votes ms X [] = Inr votes" using collect_votes_Inr [OF assms(2), of "[]"] by simp
  have nr: "\<not> ragged votes" using assms(3) by (intro not_ragged [of _ "length X"]) simp
  have sm: "sum_axis0 (map (map real_of_int) votes) = map (\<lambda>j. \<Sum>r\<leftarrow>votes. real_of_int (r ! j)) [0..<length X]"
    using ne assms(3) by (intro sum_axis0_nth) auto
  have 1: "majority_vote_ensemble ms X = Inr (map (\<lambda>i. np_round (vote_mean votes i)) [0..<length X], None)"
    by (simp add: majority_vote_ensemble_def cv ne nr sm vote_mean_def comp_def)
  have 2: "\<forall>i<length X. np_round (vote_mean votes i) = (if 1 / 2 < vote_mean votes i then 1 else 0)"
  proof (intro allI impI)
    fix i assume i: "i < length X"
    with assms(3) have "\<forall>v\<in>set votes. i < length v \<and> set v \<subseteq> {0, 1}" by auto
    from binary_sum_bounds [OF this] ne
    have "0 \<le> vote_mean votes i" "vote_mean votes i \<le> 1"
      by (simp_all add: vote_mean_def divide_le_eq)
    then show "np_round (vote_mean votes i) = (if 1 / 2 < vote_mean votes i then 1 else 0)"
      by (rule np_round_unit)
  qed
  from 1 2 show ?thesis by blast
qed

text \<open>Votes 1, 1, 0 for a sample give label 1.\<close>

theorem majority_vote_ensemble_half_to_even_witness:
  "[(''signature_detector'', constant_model 1), (''ensemble_rf'', constant_model 1),
    (''ensemble_lr'', constant_model 0)] \<noteq> [] \<and>
   map (\<lambda>(n, m). vote_of n m [[0]])
     [(''signature_detector'', constant_model 1), (''ensemble_rf'', constant_model 1),
      (''ensemble_lr'', constant_model 0)] = map Inr [[1], [1], [0]] \<and>
   list_all (\<lambda>v. length v = length [[0 :: real]] \<and> set v \<subseteq> {0, 1}) [[1], [1], [0 :: int]] \<and>
   majority_vote_ensemble
     [(''signature_detector'', constant_model 1), (''ensemble_rf'', constant_model 1),
      (''ensemble_lr'', constant_model 0)] [[0]] = Inr ([1], None)"
proof -
  have h1: "[(''signature_detector'', constant_model 1), (''ensemble_rf'', constant_model 1),
    (''ensemble_lr'', constant_model 0)] \<noteq> []" by simp
  have h2: "map (\<lambda>(n, m). vote_of n m [[0]])
     [(''signature_detector'', constant_model 1), (''ensemble_rf'', constant_model 1),
      (''ensemble_lr'', constant_model 0)] = map Inr [[1], [1], [0]]"
    by (simp add: vote_of_def constant_model_def)
  have h3: "\<forall>v\<in>set [[1], [1], [0 :: int]]. length v = length [[0 :: real]] \<and> set v \<subseteq> {0, 1}"
    by simp
  have "np_round (vote_mean [[1], [1], [0]] 0) = 1"
    by (simp add: vote_mean_def np_round_def)
  with majority_vote_ensemble_half_to_even [OF h1 h2 h3] h1 h2 h3 show ?thesis by simp
qed

text \<open>
  Against claim C2 as stated (a tie resolves to label 1): votes 1 and 0 for a sample give
  label 0.
\<close>

theorem majority_vote_tie_counterexample:
  "majority_vote_ensemble
     [(''signature_detector'', constant_model 1), (''ensemble_rf'', constant_model 0)] [[0]]
     = Inr ([0], None)"
  by (simp add: majority_vote_ensemble_def vote_of_def constant_model_def ragged_def sum_axis0_def
      np_round_def)

subsection \<open>Weighted average\<close>



subsection \<open>Best model\<close>



subsection \<open>A failing model\<close>

text \<open>
  Claim C6, as the code has it.  No strategy catches the exception of a model it asks: when
  the inference of a model fails, majority vote fails, weighted average fails if the model
  has a weight other than 0, and best model fails if the model is the selected one.
  \<open>test_ensemble_performance\<close> records such a strategy as an error and still runs
  every strategy.
\<close>

theorem model_failure_fails_strategy:
  "((n, m) \<in> set ms \<and> vote_of n m X = Inl e \<longrightarrow>
      (\<exists>e'. majority_vote_ensemble ms X = Inl e' \<and>
            map_of (test_ensemble_performance ms metrics X) ''majority_vote'' = Some (Error e'))) \<and>
   ((n, m) \<in> set ms \<and> weight_of n \<noteq> 0 \<and> model_prob n m X = Inl e \<longrightarrow>
      (\<exists>e'. weighted_average_ensemble ms X = Inl e' \<and>
            map_of (test_ensemble_performance ms metrics X) ''weighted_average'' = Some (Error e'))) \<and>
   (best_model ms = Some m \<and> predict m X = Inl e \<longrightarrow>
      best_model_ensemble ms X = Inl e \<and>
      map_of (test_ensemble_performance ms metrics X) ''best_model'' = Some (Error e)) \<and>
   map fst (test_ensemble_performance ms metrics X) = [''majority_vote'', ''weighted_average'', ''best_model'']"
proof -
  have 1: "(n, m) \<in> set ms \<and> vote_of n m X = Inl e \<longrightarrow>
      (\<exists>e'. majority_vote_ensemble ms X = Inl e' \<and>
            map_of (test_ensemble_performance ms metrics X) ''majority_vote'' = Some (Error e'))"
  proof
    assume a: "(n, m) \<in> set ms \<and> vote_of n m X = Inl e"
    then obtain e' where "collect_votes ms X [] = Inl e'"
      using collect_votes_Inl [of n m ms X e "[]"] by blast
    then have "majority_vote_ensemble ms X = Inl e'" by (simp add: majority_vote_ensemble_def)
    then show "\<exists>e'. majority_vote_ensemble ms X = Inl e' \<and>
            map_of (test_ensemble_performance ms metrics X) ''majority_vote'' = Some (Error e')"
      by (simp add: test_ensemble_performance_def run_strategy_def)
  qed
  have 2: "(n, m) \<in> set ms \<and> weight_of n \<noteq> 0 \<and> model_prob n m X = Inl e \<longrightarrow>
      (\<exists>e'. weighted_average_ensemble ms X = Inl e' \<and>
            map_of (test_ensemble_performance ms metrics X) ''weighted_average'' = Some (Error e'))"
  proof
    assume a: "(n, m) \<in> set ms \<and> weight_of n \<noteq> 0 \<and> model_prob n m X = Inl e"
    then obtain e' where "weighted_loop ms X [] 0 = Inl e'"
      using weighted_loop_Inl [of n m ms X e "[]" 0] by blast
    then have "weighted_average_ensemble ms X = Inl e'" by (simp add: weighted_average_ensemble_def)
    then show "\<exists>e'. weighted_average_ensemble ms X = Inl e' \<and>
            map_of (test_ensemble_performance ms metrics X) ''weighted_average'' = Some (Error e')"
      by (simp add: test_ensemble_performance_def run_strategy_def)
  qed
  have 3: "best_model ms = Some m \<and> predict m X = Inl e \<longrightarrow>
      best_model_ensemble ms X = Inl e \<and>
      map_of (test_ensemble_performance ms metrics X) ''best_model'' = Some (Error e)"
    by (simp add: test_ensemble_performance_def run_strategy_def best_model_ensemble_def)
  have 4: "map fst (test_ensemble_performance ms metrics X) = [''majority_vote'', ''weighted_average'', ''best_model'']"
    by (simp add: test_ensemble_performance_def)
  from 1 2 3 4 show ?thesis by blast
qed

theorem model_failure_fails_strategy_witness:
  "(''signature_detector'', failing_model) \<in> set one_failing \<and>
   vote_of ''signature_detector'' failing_model [[0]] = Inl (InferenceError ''shape mismatch'') \<and>
   weight_of ''signature_detector'' \<noteq> 0 \<and>
   model_prob ''signature_detector'' failing_model [[0]] = Inl (InferenceError ''shape mismatch'') \<and>
   best_model [(''signature_detector'', failing_model)] = Some failing_model \<and>
   predict failing_model [[0]] = Inl (InferenceError ''shape mismatch'') \<and>
   (\<exists>e'. majority_vote_ensemble one_failing [[0]] = Inl e') \<and>
   (\<exists>e'. weighted_average_ensemble one_failing [[0]] = Inl e') \<and>
   best_model_ensemble [(''signature_detector'', failing_model)] [[0]] = Inl (InferenceError ''shape mismatch'')"
proof -
  have h1: "(''signature_detector'', failing_model) \<in> set one_failing" by (simp add: one_failing_def)
  have h2: "vote_of ''signature_detector'' failing_model [[0]] = Inl (InferenceError ''shape mismatch'')"
    by (simp add: vote_of_def failing_model_def)
  have h3: "weight_of ''signature_detector'' \<noteq> 0" by (simp add: weight_of_def weights_def)
  have h4: "model_prob ''signature_detector'' failing_model [[0]] = Inl (InferenceError ''shape mismatch'')"
    by (simp add: model_prob_def failing_model_def)
  have h5: "best_model [(''signature_detector'', failing_model)] = Some failing_model"
    by (simp add: best_model_def)
  have h6: "predict failing_model [[0]] = Inl (InferenceError ''shape mismatch'')"
    by (simp add: failing_model_def)
  from model_failure_fails_strategy
         [of "''signature_detector''" failing_model one_failing "[[0]]" "InferenceError ''shape mismatch''"]
       model_failure_fails_strategy
         [of "''signature_detector''" failing_model "[(''signature_detector'', failing_model)]" "[[0]]"
             "InferenceError ''shape mismatch''"]
       h1 h2 h3 h4 h5 h6
  show ?thesis by blast
qed

text \<open>
  Against claim C6 as stated: with a failing signature detector and a working random forest,
  majority vote and weighted average are recorded as errors; no result is computed from the
  remaining model.
\<close>

theorem single_failure_aborts_strategy_counterexample:
  "test_ensemble_performance one_failing Inr [[0]] =
     [(''majority_vote'', Error (InferenceError ''shape mismatch'')),
      (''weighted_average'', Error (InferenceError ''shape mismatch'')),
      (''best_model'', Success ([1], None))]"
  by (simp add: test_ensemble_performance_def run_strategy_def one_failing_def
      majority_vote_ensemble_def weighted_average_ensemble_def best_model_ensemble_def best_model_def
      vote_of_def model_prob_def weight_of_def weights_def failing_model_def constant_model_def)


section \<open>Properties of the deployment\<close>

subsection \<open>Auxiliary facts\<close>

lemma length_endpoint_infos: "length (endpoint_infos self cfg) = length (sc_models cfg)"
  by (simp add: endpoint_infos_def)

lemma endpoint_infos_names: "map ep_model (endpoint_infos self cfg) = map mc_name (sc_models cfg)"
  by (simp add: endpoint_infos_def comp_def)

lemma summarize_Inr:
  "summarize tests =
     Inr \<lparr>ts_total_tests = length tests,
          ts_passed = length (filter (\<lambda>t. te_status t = ''passed'') tests),
          ts_failed = length tests - length (filter (\<lambda>t. te_status t = ''passed'') tests),
          ts_success_rate =
            (if 0 < length tests
             then real (length (filter (\<lambda>t. te_status t = ''passed'') tests)) / real (length tests)
             else 0)\<rparr>"
  by (simp add: summarize_def py_truediv_def Let_def)

lemma all_passed_rate:
  assumes "tests \<noteq> []" "\<forall>t\<in>set tests. te_status t = ''passed''"
  shows "real (length (filter (\<lambda>t. te_status t = ''passed'') tests)) / real (length tests) = 1"
proof -
  from assms(2) have "filter (\<lambda>t. te_status t = ''passed'') tests = tests" by (simp add: filter_id_conv)
  with assms(1) show ?thesis by simp
qed

lemma deployment_tests_nonempty: "deployment_tests self fs get d \<noteq> []"
  by (simp add: deployment_tests_def)

lemma required_not_globbed: "n \<in> set required_files \<Longrightarrow> \<not> suffix ''_v2.0.0.joblib'' n"
  by (auto simp: required_files_def suffix_to_prefix)

lemma map_of_fold_update_const:
  "map_of (fold (\<lambda>k res. AList.update k v res) ks acc) n =
     (if n \<in> set ks then Some v else map_of acc n)"
  by (induction ks arbitrary: acc) (auto simp: update_conv')

lemma map_of_fold_update_fun:
  "map_of (fold (\<lambda>k res. AList.update k (f k) res) ks acc) n =
     (if n \<in> set ks then Some (f n) else map_of acc n)"
  by (induction ks arbitrary: acc) (auto simp: update_conv')

lemma validate_models_required:
  assumes "n \<in> set required_files"
  shows "map_of (validate_models self fs experiment_id) n =
           Some (path_exists fs (pjoin (experiments_dir self) experiment_id) n)"
proof -
  from assms have "n \<notin> set (glob_v2 fs (models_dir self))"
    using required_not_globbed by (auto simp: glob_v2_def)
  with assms show ?thesis
    by (simp add: validate_models_def Let_def map_of_fold_update_const map_of_fold_update_fun)
qed

lemma validate_models_keys:
  "set (map fst (validate_models self fs experiment_id)) = set required_files \<union> set (glob_v2 fs (models_dir self))"
proof -
  have "dom (map_of (validate_models self fs experiment_id)) = set required_files \<union> set (glob_v2 fs (models_dir self))"
    by (auto simp: validate_models_def Let_def map_of_fold_update_const map_of_fold_update_fun dom_def split: if_splits)
  then show ?thesis by (simp add: dom_map_of_conv_image_fst)
qed

lemma main_aborts:
  assumes "\<not> all_values (validate_models (deployer_of args) fs (arg_experiment_id args))"
  shows "main args clk net fs = (1, fs, [''load_experiment_metadata'']) \<or>
         main args clk net fs = (1, fs, [''load_experiment_metadata'', ''validate_models''])"
  using assms
  by (cases "load_experiment_metadata (deployer_of args) fs (arg_experiment_id args)")
     (simp_all add: main_def deployer_of_def Let_def)

lemma not_all_values_iff: "\<not> all_values d \<longleftrightarrow> (\<exists>k. (k, False) \<in> set d)"
  by (force simp: all_values_def list_all_iff)









lemma registry_sig_only_models:
  "registry_models registry_sig_only =
     [registry_model_info deployer0 clock0 [(''signature_detector'', [(''accuracy'', 0.9)])] ''signature_detector'']"
  by (simp add: registry_models_def registry_sig_only_def registry_payload_def model_names_def
      path_exists_def listdir_def fs_complete_def deployer0_def model_file_name_def metadata0_def)

lemma config_sig_only_names:
  "\<not> isl (create_model_serving_config clock0 ''exp1'' registry_sig_only) \<and>
   map mc_name (sc_models (projr (create_model_serving_config clock0 ''exp1'' registry_sig_only))) = [''signature_detector'']"
  by (simp add: create_model_serving_config_def registry_sig_only_models model_config_of_def
      registry_model_info_def)


lemma config_sig_only_models: "map mc_name (sc_models config_sig_only) = [''signature_detector'']"
  using config_sig_only_names by (simp add: config_sig_only_def)

subsection \<open>The artifact validator and the driver\<close>

text \<open>
  Claim C9.  \<open>validate_models\<close> returns a mapping (it has no error result) in which every
  required file name is mapped to whether the file exists in the experiment directory, so
  a missing artifact is reported as false.  When the mapping holds a false value, \<open>main\<close>
  returns exit code 1, leaves the file system as it was and has not called
  \<open>register_models_with_registry\<close>; so it does when a required file is missing.
\<close>

theorem validate_models_reports_main_aborts:
  "(n \<in> set required_files \<longrightarrow>
      map_of (validate_models self fs experiment_id) n =
        Some (path_exists fs (pjoin (experiments_dir self) experiment_id) n)) \<and>
   ((k, False) \<in> set (validate_models (deployer_of args) fs (arg_experiment_id args)) \<longrightarrow>
      fst (main args clk net fs) = 1 \<and>
      fst (snd (main args clk net fs)) = fs \<and>
      ''register_models_with_registry'' \<notin> set (snd (snd (main args clk net fs)))) \<and>
   (n \<in> set required_files \<and>
    \<not> path_exists fs (pjoin (arg_experiments_dir args) (arg_experiment_id args)) n \<longrightarrow>
      fst (main args clk net fs) = 1 \<and>
      fst (snd (main args clk net fs)) = fs \<and>
      ''register_models_with_registry'' \<notin> set (snd (snd (main args clk net fs))))"
proof -
  have 1: "n \<in> set required_files \<longrightarrow>
      map_of (validate_models self fs experiment_id) n =
        Some (path_exists fs (pjoin (experiments_dir self) experiment_id) n)"
    by (simp add: validate_models_required)
  have abort: "fst (main args clk net fs) = 1 \<and>
      fst (snd (main args clk net fs)) = fs \<and>
      ''register_models_with_registry'' \<notin> set (snd (snd (main args clk net fs)))"
    if "(k', False) \<in> set (validate_models (deployer_of args) fs (arg_experiment_id args))" for k'
  proof -
    from that have "\<not> all_values (validate_models (deployer_of args) fs (arg_experiment_id args))"
      by (auto simp: not_all_values_iff)
    from main_aborts [OF this, of clk net] show ?thesis by auto
  qed
  have 3: "n \<in> set required_files \<and>
    \<not> path_exists fs (pjoin (arg_experiments_dir args) (arg_experiment_id args)) n \<longrightarrow>
      fst (main args clk net fs) = 1 \<and>
      fst (snd (main args clk net fs)) = fs \<and>
      ''register_models_with_registry'' \<notin> set (snd (snd (main args clk net fs)))"
  proof
    assume a: "n \<in> set required_files \<and>
      \<not> path_exists fs (pjoin (arg_experiments_dir args) (arg_experiment_id args)) n"
    then have "map_of (validate_models (deployer_of args) fs (arg_experiment_id args)) n = Some False"
      by (simp add: validate_models_required deployer_of_def)
    then have "(n, False) \<in> set (validate_models (deployer_of args) fs (arg_experiment_id args))"
      by (rule map_of_SomeD)
    then show "fst (main args clk net fs) = 1 \<and>
      fst (snd (main args clk net fs)) = fs \<and>
      ''register_models_with_registry'' \<notin> set (snd (snd (main args clk net fs)))"
      by (rule abort)
  qed
  from 1 abort [of k] 3 show ?thesis by blast
qed

text \<open>
  An experiment without \<open>deployment_config.json\<close>: the file is reported as false,
  \<open>models.joblib\<close> as true, and \<open>main\<close> stops with exit code 1 before the registration.
\<close>

theorem validate_models_reports_main_aborts_witness:
  "''deployment_config.json'' \<in> set required_files \<and>
   \<not> path_exists fs_missing_config (pjoin (arg_experiments_dir args0) (arg_experiment_id args0))
        ''deployment_config.json'' \<and>
   map_of (validate_models deployer0 fs_missing_config ''exp1'') ''deployment_config.json'' = Some False \<and>
   map_of (validate_models deployer0 fs_missing_config ''exp1'') ''models.joblib'' = Some True \<and>
   fst (main args0 clock0 network_down fs_missing_config) = 1 \<and>
   fst (snd (main args0 clock0 network_down fs_missing_config)) = fs_missing_config \<and>
   ''register_models_with_registry'' \<notin> set (snd (snd (main args0 clock0 network_down fs_missing_config)))"
proof -
  have h1: "''deployment_config.json'' \<in> set required_files" "''models.joblib'' \<in> set required_files"
    by (simp_all add: required_files_def)
  have h2: "\<not> path_exists fs_missing_config (pjoin (arg_experiments_dir args0) (arg_experiment_id args0))
        ''deployment_config.json''"
    by (simp add: path_exists_def listdir_def fs_missing_config_def pjoin_def args0_def)
  have h3: "path_exists fs_missing_config (pjoin (experiments_dir deployer0) ''exp1'') ''models.joblib''"
    by (simp add: path_exists_def listdir_def fs_missing_config_def pjoin_def deployer0_def)
  have h4: "\<not> path_exists fs_missing_config (pjoin (experiments_dir deployer0) ''exp1'') ''deployment_config.json''"
    by (simp add: path_exists_def listdir_def fs_missing_config_def pjoin_def deployer0_def)
  from validate_models_reports_main_aborts
         [of "''deployment_config.json''" deployer0 fs_missing_config "''exp1''" _ args0 clock0 network_down]
       validate_models_reports_main_aborts
         [of "''models.joblib''" deployer0 fs_missing_config "''exp1''" _ args0 clock0 network_down]
       h1 h2 h3 h4
  show ?thesis by simp
qed

subsection \<open>The registry client\<close>




subsection \<open>The serving configuration\<close>




subsection \<open>The deployment executor\<close>

text \<open>
  Claim C5.  \<open>deploy_to_serving_infrastructure\<close> always returns a result (it has no error
  result), with status \<open>deployed\<close> or \<open>configuration_ready\<close> and one endpoint per model of
  the serving configuration, under the model's name.  When the deploy request fails
  (timeout, connection error, a status other than 200) the status is
  \<open>configuration_ready\<close> and the result carries the manual deployment: a non-empty list
  of instructions and the file path of every model.
\<close>

theorem deploy_always_returns_fallback:
  "(post_failed (post (mlops_base_url self @ ''/api/mlops/deploy'')
                  \<lparr>rq_deployment_config = cfg, rq_models = sc_models cfg\<rparr>) \<longrightarrow>
      dr_status (deploy_to_serving_infrastructure self clk post cfg) = ''configuration_ready'' \<and>
      (\<exists>md. dr_manual_deployment (deploy_to_serving_infrastructure self clk post cfg) = Some md \<and>
            md_instructions md \<noteq> [] \<and>
            md_model_files md = map mc_file_path (sc_models cfg))) \<and>
   (dr_status (deploy_to_serving_infrastructure self clk post cfg) = ''deployed'' \<or>
    dr_status (deploy_to_serving_infrastructure self clk post cfg) = ''configuration_ready'') \<and>
   length (dr_endpoints (deploy_to_serving_infrastructure self clk post cfg)) = length (sc_models cfg) \<and>
   map ep_model (dr_endpoints (deploy_to_serving_infrastructure self clk post cfg)) = map mc_name (sc_models cfg)"
  by (auto simp: deploy_to_serving_infrastructure_def manual_fallback_def post_failed_def
      manual_instructions_def length_endpoint_infos endpoint_infos_names Let_def
      split: http_outcome.splits option.splits)

text \<open>An unreachable serving API and a configuration with one model.\<close>

theorem deploy_always_returns_fallback_witness:
  "post_failed (unreachable (mlops_base_url deployer0 @ ''/api/mlops/deploy'')
                  \<lparr>rq_deployment_config = config_sig_only, rq_models = sc_models config_sig_only\<rparr>
                :: string http_outcome) \<and>
   dr_status (deploy_to_serving_infrastructure deployer0 clock0 unreachable config_sig_only) =
     ''configuration_ready'' \<and>
   map ep_model (dr_endpoints (deploy_to_serving_infrastructure deployer0 clock0 unreachable config_sig_only)) =
     [''signature_detector'']"
proof -
  have h: "post_failed (unreachable (mlops_base_url deployer0 @ ''/api/mlops/deploy'')
                  \<lparr>rq_deployment_config = config_sig_only, rq_models = sc_models config_sig_only\<rparr>
                :: string http_outcome)"
    by (simp add: post_failed_def unreachable_def)
  from deploy_always_returns_fallback [of unreachable deployer0 config_sig_only clock0] h
  show ?thesis by (simp add: config_sig_only_models)
qed

subsection \<open>The validation harness\<close>

text \<open>
  Claim C8.  The summary never raises a division error: for every list of checks it is
  computed, with success rate passed / total when there is a check and 0 when there is
  none, and 1 when every check of a non-empty list passed.  \<open>run_deployment_tests\<close>
  always returns its results, the summary is that of its checks, its success rate is
  passed / total, and 1 when all its checks passed.
\<close>

theorem success_rate_never_divides_by_zero:
  "(\<exists>s. summarize tests = Inr s \<and>
        ts_success_rate s =
          (if 0 < length tests
           then real (length (filter (\<lambda>t. te_status t = ''passed'') tests)) / real (length tests)
           else 0) \<and>
        (tests = [] \<longrightarrow> ts_success_rate s = 0) \<and>
        (tests \<noteq> [] \<and> (\<forall>t\<in>set tests. te_status t = ''passed'') \<longrightarrow> ts_success_rate s = 1)) \<and>
   (\<exists>tr. run_deployment_tests self clk fs get d = Inr tr \<and>
         tr_tests tr = deployment_tests self fs get d \<and>
         summarize (tr_tests tr) = Inr (tr_summary tr) \<and>
         ts_success_rate (tr_summary tr) =
           real (length (filter (\<lambda>t. te_status t = ''passed'') (tr_tests tr))) / real (length (tr_tests tr)) \<and>
         ((\<forall>t\<in>set (tr_tests tr). te_status t = ''passed'') \<longrightarrow> ts_success_rate (tr_summary tr) = 1))"
proof -
  have 1: "\<exists>s. summarize tests = Inr s \<and>
        ts_success_rate s =
          (if 0 < length tests
           then real (length (filter (\<lambda>t. te_status t = ''passed'') tests)) / real (length tests)
           else 0) \<and>
        (tests = [] \<longrightarrow> ts_success_rate s = 0) \<and>
        (tests \<noteq> [] \<and> (\<forall>t\<in>set tests. te_status t = ''passed'') \<longrightarrow> ts_success_rate s = 1)"
    using all_passed_rate [of tests] by (simp add: summarize_Inr)
  define ts where "ts = deployment_tests self fs get d"
  have ne: "ts \<noteq> []" by (simp add: ts_def deployment_tests_nonempty)
  have run: "run_deployment_tests self clk fs get d =
     Inr \<lparr>tr_timestamp = now_iso clk, tr_tests = ts,
          tr_summary =
            \<lparr>ts_total_tests = length ts,
             ts_passed = length (filter (\<lambda>t. te_status t = ''passed'') ts),
             ts_failed = length ts - length (filter (\<lambda>t. te_status t = ''passed'') ts),
             ts_success_rate =
               (if 0 < length ts
                then real (length (filter (\<lambda>t. te_status t = ''passed'') ts)) / real (length ts)
                else 0)\<rparr>\<rparr>"
    by (simp add: run_deployment_tests_def summarize_Inr ts_def [symmetric] Let_def)
  have 2: "\<exists>tr. run_deployment_tests self clk fs get d = Inr tr \<and>
         tr_tests tr = deployment_tests self fs get d \<and>
         summarize (tr_tests tr) = Inr (tr_summary tr) \<and>
         ts_success_rate (tr_summary tr) =
           real (length (filter (\<lambda>t. te_status t = ''passed'') (tr_tests tr))) / real (length (tr_tests tr)) \<and>
         ((\<forall>t\<in>set (tr_tests tr). te_status t = ''passed'') \<longrightarrow> ts_success_rate (tr_summary tr) = 1)"
    using ne all_passed_rate [of ts] by (simp add: run summarize_Inr ts_def [symmetric])
  from 1 2 show ?thesis by blast
qed

text \<open>No check, one passed check, and a run whose two loading checks pass.\<close>

theorem success_rate_never_divides_by_zero_witness:
  "(\<exists>s. summarize [] = Inr s \<and> ts_success_rate s = 0) \<and>
   (\<exists>s. summarize [test_passed ''model_loading'' ''ok''] = Inr s \<and> ts_success_rate s = 1) \<and>
   (\<exists>tr. run_deployment_tests deployer0 clock0 fs_complete no_answer (result_for ''exp1'') = Inr tr \<and>
         map te_status (tr_tests tr) = [''passed'', ''passed''] \<and>
         ts_success_rate (tr_summary tr) = 1)"
proof -
  have 1: "\<exists>s. summarize [] = Inr s \<and> ts_success_rate s = 0"
    using success_rate_never_divides_by_zero [of "[]"] by auto
  have 2: "\<exists>s. summarize [test_passed ''model_loading'' ''ok''] = Inr s \<and> ts_success_rate s = 1"
    using success_rate_never_divides_by_zero [of "[test_passed ''model_loading'' ''ok'']"]
    by (auto simp: test_passed_def)
  have st: "map te_status (deployment_tests deployer0 fs_complete no_answer (result_for ''exp1'')) =
              [''passed'', ''passed'']"
    by (simp add: deployment_tests_def model_loading_test_def preprocessor_loading_test_def
        result_for_def fs_complete_def listdir_def deployer0_def pjoin_def joblib_load_def test_passed_def)
  obtain tr where tr: "run_deployment_tests deployer0 clock0 fs_complete no_answer (result_for ''exp1'') = Inr tr"
    "tr_tests tr = deployment_tests deployer0 fs_complete no_answer (result_for ''exp1'')"
    "(\<forall>t\<in>set (tr_tests tr). te_status t = ''passed'') \<longrightarrow> ts_success_rate (tr_summary tr) = 1"
    using success_rate_never_divides_by_zero
            [of "[]" deployer0 clock0 fs_complete no_answer "result_for ''exp1''"]
    by blast
  have "\<forall>t\<in>set (tr_tests tr). te_status t = ''passed''"
  proof
    fix t assume "t \<in> set (tr_tests tr)"
    then have "te_status t \<in> set (map te_status (tr_tests tr))" by simp
    then show "te_status t = ''passed''" by (simp add: tr(2) st)
  qed
  with tr have "ts_success_rate (tr_summary tr) = 1" by blast
  with tr st have 3: "\<exists>tr. run_deployment_tests deployer0 clock0 fs_complete no_answer (result_for ''exp1'') = Inr tr \<and>
         map te_status (tr_tests tr) = [''passed'', ''passed''] \<and>
         ts_success_rate (tr_summary tr) = 1"
    by auto
  from 1 2 3 show ?thesis by blast
qed

text \<open>
  Claim C10.  The \<open>model_loading\<close> check of \<open>run_deployment_tests\<close> reads
  \<open>models.joblib\<close> in the directory \<open>initial-training-20250614\<close> under
  \<open>experiments_dir\<close>: two runs with the same \<open>experiments_dir\<close> and the same file at that
  path record the same \<open>model_loading\<close> entry, whatever the deployment results, the models
  directories, the rest of the file systems, the clocks and the endpoints' answers are; and
  the check passes exactly when that path holds a file that loads to an object with a length.
\<close>

theorem model_loading_reads_fixed_directory:
  "(experiments_dir self = experiments_dir self' \<and>
    map_of (listdir fs (pjoin (experiments_dir self) ''initial-training-20250614'')) ''models.joblib'' =
    map_of (listdir fs' (pjoin (experiments_dir self) ''initial-training-20250614'')) ''models.joblib'' \<longrightarrow>
      (\<exists>tr tr' t.
         run_deployment_tests self clk fs get d = Inr tr \<and>
         run_deployment_tests self' clk' fs' get' d' = Inr tr' \<and>
         filter (\<lambda>t. te_test t = ''model_loading'') (tr_tests tr) = [t] \<and>
         filter (\<lambda>t. te_test t = ''model_loading'') (tr_tests tr') = [t])) \<and>
   (\<exists>tr t.
      run_deployment_tests self clk fs get d = Inr tr \<and>
      filter (\<lambda>t. te_test t = ''model_loading'') (tr_tests tr) = [t] \<and>
      (te_status t = ''passed'' \<longleftrightarrow>
         (\<exists>n. map_of (listdir fs (pjoin (experiments_dir self) ''initial-training-20250614''))
                ''models.joblib'' = Some (Pickle (Sized n)))))"
proof -
  have name_ml: "te_test (model_loading_test s f) = ''model_loading''" for s f
    by (simp add: model_loading_test_def test_passed_def test_failed_def
        split: option.splits sum.splits loaded.splits)
  have name_pp: "te_test (preprocessor_loading_test s f) \<noteq> ''model_loading''" for s f
    by (simp add: preprocessor_loading_test_def test_passed_def test_failed_def
        split: option.splits sum.splits)
  have name_ep: "te_test (endpoint_health_test g e) \<noteq> ''model_loading''" for g e
    by (simp add: endpoint_health_test_def test_passed_def test_failed_def Let_def
        split: http_outcome.splits)
  have flt: "filter (\<lambda>t. te_test t = ''model_loading'') (deployment_tests s f g r) = [model_loading_test s f]"
    for s f g r
    by (simp add: deployment_tests_def name_ml name_pp name_ep)
  have run: "\<exists>tr. run_deployment_tests s c f g r = Inr tr \<and> tr_tests tr = deployment_tests s f g r"
    for s c f g r
    by (simp add: run_deployment_tests_def summarize_Inr Let_def)
  have same: "model_loading_test self fs = model_loading_test self' fs'"
    if "experiments_dir self = experiments_dir self'"
      "map_of (listdir fs (pjoin (experiments_dir self) ''initial-training-20250614'')) ''models.joblib'' =
       map_of (listdir fs' (pjoin (experiments_dir self) ''initial-training-20250614'')) ''models.joblib''"
    using that by (simp add: model_loading_test_def)
  have status: "te_status (model_loading_test self fs) = ''passed'' \<longleftrightarrow>
         (\<exists>n. map_of (listdir fs (pjoin (experiments_dir self) ''initial-training-20250614''))
                ''models.joblib'' = Some (Pickle (Sized n)))"
    by (auto simp: model_loading_test_def test_passed_def test_failed_def joblib_load_def
        split: option.splits sum.splits loaded.splits content.splits)
  have A: "experiments_dir self = experiments_dir self' \<and>
    map_of (listdir fs (pjoin (experiments_dir self) ''initial-training-20250614'')) ''models.joblib'' =
    map_of (listdir fs' (pjoin (experiments_dir self) ''initial-training-20250614'')) ''models.joblib'' \<longrightarrow>
      (\<exists>tr tr' t.
         run_deployment_tests self clk fs get d = Inr tr \<and>
         run_deployment_tests self' clk' fs' get' d' = Inr tr' \<and>
         filter (\<lambda>t. te_test t = ''model_loading'') (tr_tests tr) = [t] \<and>
         filter (\<lambda>t. te_test t = ''model_loading'') (tr_tests tr') = [t])"
  proof
    assume a: "experiments_dir self = experiments_dir self' \<and>
      map_of (listdir fs (pjoin (experiments_dir self) ''initial-training-20250614'')) ''models.joblib'' =
      map_of (listdir fs' (pjoin (experiments_dir self) ''initial-training-20250614'')) ''models.joblib''"
    obtain tr where tr: "run_deployment_tests self clk fs get d = Inr tr"
      "tr_tests tr = deployment_tests self fs get d"
      using run [of self clk fs get d] by blast
    obtain tr' where tr': "run_deployment_tests self' clk' fs' get' d' = Inr tr'"
      "tr_tests tr' = deployment_tests self' fs' get' d'"
      using run [of self' clk' fs' get' d'] by blast
    have eq: "model_loading_test self fs = model_loading_test self' fs'"
      using same a by blast
    have "filter (\<lambda>t. te_test t = ''model_loading'') (tr_tests tr) = [model_loading_test self fs]"
      by (simp only: tr(2) flt)
    moreover have "filter (\<lambda>t. te_test t = ''model_loading'') (tr_tests tr') = [model_loading_test self fs]"
      by (simp only: tr'(2) flt eq)
    ultimately show "\<exists>tr tr' t.
         run_deployment_tests self clk fs get d = Inr tr \<and>
         run_deployment_tests self' clk' fs' get' d' = Inr tr' \<and>
         filter (\<lambda>t. te_test t = ''model_loading'') (tr_tests tr) = [t] \<and>
         filter (\<lambda>t. te_test t = ''model_loading'') (tr_tests tr') = [t]"
      using tr(1) tr'(1) by blast
  qed
  have B: "\<exists>tr t.
      run_deployment_tests self clk fs get d = Inr tr \<and>
      filter (\<lambda>t. te_test t = ''model_loading'') (tr_tests tr) = [t] \<and>
      (te_status t = ''passed'' \<longleftrightarrow>
         (\<exists>n. map_of (listdir fs (pjoin (experiments_dir self) ''initial-training-20250614''))
                ''models.joblib'' = Some (Pickle (Sized n))))"
  proof -
    obtain tr where tr: "run_deployment_tests self clk fs get d = Inr tr"
      "tr_tests tr = deployment_tests self fs get d"
      using run [of self clk fs get d] by blast
    have "filter (\<lambda>t. te_test t = ''model_loading'') (tr_tests tr) = [model_loading_test self fs]"
      by (simp only: tr(2) flt)
    with tr(1) status show ?thesis by blast
  qed
  from A B show ?thesis by blast
qed

text \<open>
  Two runs for different experiments, with different deployers and file systems that agree
  on that one path.
\<close>

theorem model_loading_reads_fixed_directory_witness:
  "experiments_dir deployer0 = experiments_dir deployer_other \<and>
   map_of (listdir fs_complete (pjoin (experiments_dir deployer0) ''initial-training-20250614'')) ''models.joblib'' =
   map_of (listdir fs_only_initial (pjoin (experiments_dir deployer0) ''initial-training-20250614'')) ''models.joblib'' \<and>
   (\<exists>tr tr' t.
      run_deployment_tests deployer0 clock0 fs_complete no_answer (result_for ''exp1'') = Inr tr \<and>
      run_deployment_tests deployer_other clock0 fs_only_initial no_answer (result_for ''exp2'') = Inr tr' \<and>
      filter (\<lambda>t. te_test t = ''model_loading'') (tr_tests tr) = [t] \<and>
      filter (\<lambda>t. te_test t = ''model_loading'') (tr_tests tr') = [t])"
proof -
  have h1: "experiments_dir deployer0 = experiments_dir deployer_other"
    by (simp add: deployer0_def deployer_other_def)
  have h2: "map_of (listdir fs_complete (pjoin (experiments_dir deployer0) ''initial-training-20250614'')) ''models.joblib'' =
   map_of (listdir fs_only_initial (pjoin (experiments_dir deployer0) ''initial-training-20250614'')) ''models.joblib''"
    by (simp add: listdir_def fs_complete_def fs_only_initial_def pjoin_def deployer0_def)
  from model_loading_reads_fixed_directory
         [of deployer0 deployer_other fs_complete fs_only_initial clock0 no_answer "result_for ''exp1''"
             clock0 no_answer "result_for ''exp2''"]
       h1 h2
  show ?thesis by blast
qed

end
